theory Spec2Isabelle
  imports Main "HOL-Library.Sublist"
begin

section \<open>RDF terms, statements and namespaces\<close>

text \<open>
  The Redland nodes: a resource (\<open>RDF.Uri\<close>), a literal (a plain Python string handed
  to \<open>RDF.Statement\<close>) or a blank node (the writer builds none), and a statement of
  three nodes.
\<close>

datatype rdf_node = Uri string | Literal string | Blank string

datatype statement = Statement (subject: rdf_node) (predicate: rdf_node) (object: rdf_node)

text \<open>The dictionary \<open>RDF_NAMESPACES\<close>, as the list of its items in the order of the literal.\<close>

definition RDF_NAMESPACES :: "(string \<times> string) list" where
  "RDF_NAMESPACES =
     [(''owl'', ''http://www.w3.org/2002/07/owl#''),
      (''cdao'', ''http://purl.obolibrary.org/obo/cdao.owl#''),
      (''rdf'', ''http://www.w3.org/1999/02/22-rdf-syntax-ns#'')]"

section \<open>Python string primitives\<close>

text \<open>
  \<open>s.replace(old, new)\<close>: every non-overlapping occurrence of \<open>old\<close>, found from the left,
  is replaced by \<open>new\<close>; an empty \<open>old\<close> matches before every character and at the end.
\<close>

function replace :: "string \<Rightarrow> string \<Rightarrow> string \<Rightarrow> string" where
  "replace old new [] = (if old = [] then new else [])"
| "replace old new (c # s) =
     (if old = [] then new @ c # replace old new s
      else if prefix old (c # s) then new @ replace old new (drop (length old) (c # s))
      else c # replace old new s)"
  by pat_completeness auto
termination
  by (relation "measure (\<lambda>(old, new, s). length s)") auto

text \<open>\<open>'%s' % n\<close> for a counter \<open>n\<close>: its decimal digits. The counters start at 0 and are
  only ever incremented, so they are naturals.\<close>

definition digit_char :: "nat \<Rightarrow> char" where
  "digit_char d = ''0123456789'' ! d"

fun str_nat :: "nat \<Rightarrow> string" where
  "str_nat n = (if n < 10 then [digit_char n] else str_nat (n div 10) @ [digit_char (n mod 10)])"

declare str_nat.simps [simp del]

section \<open>Trees\<close>

text \<open>
  A clade of \<open>Bio.Phylo.Newick\<close>: an optional name, an optional branch length and the list
  of its children. The type \<open>'b\<close> is the type of branch lengths (Python floats).
\<close>

datatype 'b clade = Clade (name: "string option") (branch_length: "'b option") (clades: "'b clade list")

datatype 'b tree = Tree (root: "'b clade") (rooted: bool)

text \<open>
  Modelled from the spec: \<open>Clade.is_terminal\<close> lives in \<open>Bio.Phylo.BaseTree\<close>, which is not
  among the sources; the specification says an empty child sequence means terminal.
\<close>

definition is_terminal :: "'b clade \<Rightarrow> bool" where
  "is_terminal c \<longleftrightarrow> clades c = []"

text \<open>\<open>str(clade.branch_length)\<close>: \<open>None\<close> prints as the text \<open>None\<close>; the printing of a
  float is a parameter \<open>fstr\<close>.\<close>

definition str_branch_length :: "('b \<Rightarrow> string) \<Rightarrow> 'b option \<Rightarrow> string" where
  "str_branch_length fstr bl = (case bl of None \<Rightarrow> ''None'' | Some x \<Rightarrow> fstr x)"

section \<open>Failures and the Redland environment\<close>

datatype error =
    CDAOError string
  | KeyError string
  | ValueError string
  | AttributeError string
  | TypeError string
  | RedlandError string
  | Exception string

text \<open>
  What the module cannot decide by itself: whether \<open>import RDF\<close> succeeds and whether the
  constructors \<open>RDF.Storage\<close>, \<open>RDF.Model\<close> and \<open>RDF.Parser\<close> return an object.
\<close>

record rdf_env =
  rdf_importable :: bool
  storage_created :: bool
  model_created :: bool
  parser_created :: bool

definition import_rdf :: "rdf_env \<Rightarrow> error + unit" where
  "import_rdf env =
     (if rdf_importable env then Inr ()
      else Inl (CDAOError ''Redland Python bindings are required for CDAO support.''))"

definition new_storage :: "rdf_env \<Rightarrow> error + unit" where
  "new_storage env =
     (case import_rdf env of
        Inl e \<Rightarrow> Inl e
      | Inr _ \<Rightarrow> if storage_created env then Inr () else Inl (CDAOError ''new RDF.Storage failed''))"

text \<open>The environment in which the Redland bindings are installed and every constructor
  returns an object.\<close>

definition redland_ok :: rdf_env where
  "redland_ok = \<lparr>rdf_importable = True, storage_created = True, model_created = True,
                  parser_created = True\<rparr>"

section \<open>The writer\<close>

text \<open>The writer object. \<open>base_uri\<close> is \<open>None\<close> as long as the object has no such
  attribute: \<open>__init__\<close> does not create it, \<open>add_trees_to_model\<close> does.\<close>

record 'b writer =
  trees :: "'b tree list"
  model :: "statement list option"
  node_counter :: nat
  edge_counter :: nat
  tree_counter :: nat
  tu_counter :: nat
  base_uri :: "string option"

definition Writer :: "'b tree list \<Rightarrow> 'b writer" where
  "Writer ts = \<lparr>trees = ts, model = None, node_counter = 0, edge_counter = 0,
                tree_counter = 0, tu_counter = 0, base_uri = None\<rparr>"

text \<open>
  The loop of \<open>qUri\<close> runs over the dictionary and replaces \<open>key + ':'\<close> by the key's
  value; \<open>qUri_items\<close> is that loop for a given order of the items, and \<open>expand\<close> the node
  made of its result.
\<close>

definition qUri_items :: "(string \<times> string) list \<Rightarrow> string \<Rightarrow> string" where
  "qUri_items items s = foldl (\<lambda>s (url, v). replace (url @ '':'') v s) s items"

definition expand :: "string \<Rightarrow> rdf_node" where
  "expand s = Uri (qUri_items RDF_NAMESPACES s)"

text \<open>\<open>qUri\<close> and \<open>nUri\<close> both start with \<open>import_rdf()\<close>; \<open>nUri\<close> reads
  \<open>self.base_uri\<close>, which fails on a writer that has no such attribute.\<close>

definition qUri :: "rdf_env \<Rightarrow> string \<Rightarrow> error + rdf_node" where
  "qUri env s = (case import_rdf env of Inl e \<Rightarrow> Inl e | Inr _ \<Rightarrow> Inr (expand s))"

definition nUri :: "rdf_env \<Rightarrow> 'b writer \<Rightarrow> string \<Rightarrow> error + rdf_node" where
  "nUri env w s =
     (case import_rdf env of
        Inl e \<Rightarrow> Inl e
      | Inr _ \<Rightarrow>
          (case base_uri w of
             None \<Rightarrow> Inl (AttributeError ''base_uri'')
           | Some b \<Rightarrow> Inr (Uri (b @ s))))"

text \<open>
  A tuple \<open>(subject, predicate, object)\<close> of the list \<open>statements\<close> and the list itself:
  Python evaluates the components from left to right, and the first call that raises ends
  the evaluation.
\<close>

definition triple ::
  "error + rdf_node \<Rightarrow> error + rdf_node \<Rightarrow> error + rdf_node \<Rightarrow> error + statement" where
  "triple s p ob =
     (case s of
        Inl e \<Rightarrow> Inl e
      | Inr s' \<Rightarrow>
          (case p of
             Inl e \<Rightarrow> Inl e
           | Inr p' \<Rightarrow> (case ob of Inl e \<Rightarrow> Inl e | Inr ob' \<Rightarrow> Inr (Statement s' p' ob'))))"

fun collect :: "(error + 'a) list \<Rightarrow> error + 'a list" where
  "collect [] = Inr []"
| "collect (x # xs) =
     (case x of
        Inl e \<Rightarrow> Inl e
      | Inr v \<Rightarrow> (case collect xs of Inl e \<Rightarrow> Inl e | Inr vs \<Rightarrow> Inr (v # vs)))"

text \<open>
  The four blocks of \<open>process_clade\<close> that add to the list \<open>statements\<close>, each with the
  counter it advances: the tree (for a root), the TU (for a clade with a name that is not
  empty), the node itself, and the edge with its annotation (for a clade with a parent).
  The clade is known by its \<open>uri\<close>, the parent by its own, the one attribute of it that
  is read.
\<close>

definition tree_statements ::
  "rdf_env \<Rightarrow> 'b writer \<Rightarrow> string \<Rightarrow> bool \<Rightarrow> error + statement list \<times> 'b writer" where
  "tree_statements env w0 uri is_root =
     (if is_root then
        (let w = w0\<lparr>tree_counter := tree_counter w0 + 1\<rparr>;
             tree_uri = ''tree'' @ str_nat (tree_counter w)
         in case collect
              [triple (nUri env w tree_uri) (qUri env ''rdf:type'') (qUri env ''cdao:RootedTree''),
               triple (nUri env w tree_uri) (qUri env ''cdao:has_root'') (nUri env w uri)] of
              Inl e \<Rightarrow> Inl e
            | Inr sts \<Rightarrow> Inr (sts, w))
      else Inr ([], w0))"

definition tu_statements ::
  "rdf_env \<Rightarrow> 'b writer \<Rightarrow> string \<Rightarrow> 'b clade \<Rightarrow> error + statement list \<times> 'b writer" where
  "tu_statements env w0 uri clade =
     (case name clade of
        Some n \<Rightarrow>
          if n \<noteq> [] then
            (let w = w0\<lparr>tu_counter := tu_counter w0 + 1\<rparr>;
                 tu_uri = ''tu'' @ str_nat (tu_counter w)
             in case collect
                  [triple (nUri env w tu_uri) (qUri env ''rdf:type'') (qUri env ''cdao:TU''),
                   triple (nUri env w uri) (qUri env ''cdao:represents_TU'') (nUri env w tu_uri),
                   triple (nUri env w tu_uri) (qUri env ''rdf:label'') (Inr (Literal n))] of
                  Inl e \<Rightarrow> Inl e
                | Inr sts \<Rightarrow> Inr (sts, w))
          else Inr ([], w0)
      | None \<Rightarrow> Inr ([], w0))"

definition node_statements ::
  "rdf_env \<Rightarrow> 'b writer \<Rightarrow> string \<Rightarrow> 'b clade \<Rightarrow> error + statement list" where
  "node_statements env w uri clade =
     (let node_type = (if is_terminal clade then ''cdao:TerminalNode'' else ''cdao:AncestralNode'')
      in collect [triple (nUri env w uri) (qUri env ''rdf:type'') (qUri env node_type)])"

definition edge_statements ::
  "rdf_env \<Rightarrow> ('b \<Rightarrow> string) \<Rightarrow> 'b writer \<Rightarrow> string \<Rightarrow> 'b clade \<Rightarrow> string option
     \<Rightarrow> error + statement list \<times> 'b writer" where
  "edge_statements env fstr w0 uri clade parent =
     (case parent of
        Some parent_uri \<Rightarrow>
          (let w = w0\<lparr>edge_counter := edge_counter w0 + 1\<rparr>;
               edge_uri = ''edge'' @ str_nat (edge_counter w);
               edge_ann_uri = ''edge_annotation'' @ str_nat (edge_counter w)
           in case collect
                [triple (nUri env w edge_uri) (qUri env ''rdf:type'') (qUri env ''cdao:Directed_Edge''),
                 triple (nUri env w edge_uri) (qUri env ''cdao:has_Parent_Node'')
                   (nUri env w parent_uri),
                 triple (nUri env w edge_uri) (qUri env ''cdao:has_Child_Node'') (nUri env w uri),
                 triple (nUri env w uri) (qUri env ''cdao:belongs_to_Edge_as_Child'')
                   (nUri env w edge_uri),
                 triple (nUri env w uri) (qUri env ''cdao:has_Parent'') (nUri env w parent_uri),
                 triple (nUri env w parent_uri) (qUri env ''cdao:belongs_to_Edge_as_Parent'')
                   (nUri env w edge_uri),
                 triple (nUri env w edge_ann_uri) (qUri env ''rdf:type'')
                   (qUri env ''cdao:EdgeLength''),
                 triple (nUri env w edge_uri) (qUri env ''cdao:has_annotation'')
                   (nUri env w edge_ann_uri),
                 triple (nUri env w edge_ann_uri) (qUri env ''cdao:has_value'')
                   (Inr (Literal (str_branch_length fstr (branch_length clade))))] of
                Inl e \<Rightarrow> Inl e
              | Inr sts \<Rightarrow> Inr (sts, w))
      | None \<Rightarrow> Inr ([], w0))"

text \<open>
  The head of \<open>process_clade\<close>: \<open>import_rdf()\<close>, the new node \<open>uri\<close>, and the list
  \<open>statements\<close> built block after block. The result is the clade's \<open>uri\<close>, the list and
  the writer with its counters advanced.
\<close>

definition clade_statements ::
  "rdf_env \<Rightarrow> ('b \<Rightarrow> string) \<Rightarrow> 'b writer \<Rightarrow> 'b clade \<Rightarrow> string option \<Rightarrow> bool
     \<Rightarrow> error + string \<times> statement list \<times> 'b writer" where
  "clade_statements env fstr w0 clade parent is_root =
     (case import_rdf env of
        Inl e \<Rightarrow> Inl e
      | Inr _ \<Rightarrow>
          (let w1 = w0\<lparr>node_counter := node_counter w0 + 1\<rparr>;
               uri = ''node'' @ str_nat (node_counter w1)
           in case tree_statements env w1 uri is_root of
                Inl e \<Rightarrow> Inl e
              | Inr (st1, w2) \<Rightarrow>
                  (case tu_statements env w2 uri clade of
                     Inl e \<Rightarrow> Inl e
                   | Inr (st2, w3) \<Rightarrow>
                       (case node_statements env w3 uri clade of
                          Inl e \<Rightarrow> Inl e
                        | Inr st3 \<Rightarrow>
                            (case edge_statements env fstr w3 uri clade parent of
                               Inl e \<Rightarrow> Inl e
                             | Inr (st4, w4) \<Rightarrow> Inr (uri, st1 @ st2 @ st3 @ st4, w4))))))"

text \<open>
  \<open>process_clade\<close>: the clade's own statements, then those of its children in order, each
  child with this clade as parent. The generator is taken as consumed to its end, as
  \<open>add_trees_to_model\<close> consumes it: it gives the statements it yields and leaves the
  counters as returned, or it raises, and then the failure alone is kept.
\<close>

fun process_clade ::
  "rdf_env \<Rightarrow> ('b \<Rightarrow> string) \<Rightarrow> 'b writer \<Rightarrow> 'b clade \<Rightarrow> string option \<Rightarrow> bool
     \<Rightarrow> error + statement list \<times> 'b writer"
and process_clades ::
  "rdf_env \<Rightarrow> ('b \<Rightarrow> string) \<Rightarrow> 'b writer \<Rightarrow> 'b clade list \<Rightarrow> string
     \<Rightarrow> error + statement list \<times> 'b writer"
where
  "process_clade env fstr w (Clade nm bl cs) parent is_root =
     (case clade_statements env fstr w (Clade nm bl cs) parent is_root of
        Inl e \<Rightarrow> Inl e
      | Inr (uri, statements, w') \<Rightarrow>
          if \<not> is_terminal (Clade nm bl cs) then
            (case process_clades env fstr w' cs uri of
               Inl e \<Rightarrow> Inl e
             | Inr (rest, w'') \<Rightarrow> Inr (statements @ rest, w''))
          else Inr (statements, w'))"
| "process_clades env fstr w [] parent_uri = Inr ([], w)"
| "process_clades env fstr w (new_clade # cs) parent_uri =
     (case process_clade env fstr w new_clade (Some parent_uri) False of
        Inl e \<Rightarrow> Inl e
      | Inr (stmts, w') \<Rightarrow>
          (case process_clades env fstr w' cs parent_uri of
             Inl e \<Rightarrow> Inl e
           | Inr (rest, w'') \<Rightarrow> Inr (stmts @ rest, w'')))"

section \<open>The writer: batches and the public entry point\<close>

text \<open>The loop \<open>for tree in trees\<close> of \<open>add_trees_to_model\<close>: the statements of the
  trees in the order \<open>process_clade\<close> yields them, the counters carried from one tree to
  the next.\<close>

fun process_trees ::
  "rdf_env \<Rightarrow> ('b \<Rightarrow> string) \<Rightarrow> 'b writer \<Rightarrow> 'b tree list \<Rightarrow> error + statement list \<times> 'b writer"
where
  "process_trees env fstr w [] = Inr ([], w)"
| "process_trees env fstr w (tree # ts) =
     (case process_clade env fstr w (root tree) None True of
        Inl e \<Rightarrow> Inl e
      | Inr (statements, w') \<Rightarrow>
          (case process_trees env fstr w' ts of
             Inl e \<Rightarrow> Inl e
           | Inr (rest, w'') \<Rightarrow> Inr (statements @ rest, w'')))"

text \<open>
  \<open>add_trees_to_model\<close>: it sets \<open>base_uri\<close>, makes the model when there is none, appends
  the statement that opens every batch and then the statements of the trees; every
  \<open>model.append\<close> adds one statement at the end of the model.
\<close>

definition add_trees_to_model ::
  "rdf_env \<Rightarrow> ('b \<Rightarrow> string) \<Rightarrow> 'b writer \<Rightarrow> 'b tree list option \<Rightarrow> bool \<Rightarrow> string
     \<Rightarrow> error + 'b writer" where
  "add_trees_to_model env fstr w trees_arg storage_given base =
     (case import_rdf env of
        Inl e \<Rightarrow> Inl e
      | Inr _ \<Rightarrow>
          (let w1 = w\<lparr>base_uri := Some base\<rparr>;
               ts = (case trees_arg of None \<Rightarrow> trees w1 | Some ts \<Rightarrow> ts)
           in case (if storage_given then Inr () else new_storage env) of
                Inl e \<Rightarrow> Inl e
              | Inr _ \<Rightarrow>
                  (case (if model w1 = None
                         then (if model_created env then Inr (w1\<lparr>model := Some []\<rparr>)
                               else Inl (CDAOError ''new RDF.model failed''))
                         else Inr w1) of
                     Inl e \<Rightarrow> Inl e
                   | Inr w2 \<Rightarrow>
                       (case map_of RDF_NAMESPACES ''cdao'' of
                          None \<Rightarrow> Inl (KeyError ''cdao'')
                        | Some cdao \<Rightarrow>
                            (case triple (Inr (Uri cdao)) (qUri env ''rdf:type'')
                                    (qUri env ''owl:Ontology'') of
                               Inl e \<Rightarrow> Inl e
                             | Inr stmt \<Rightarrow>
                                 (case process_trees env fstr
                                         (w2\<lparr>model := map_option (\<lambda>m. m @ [stmt]) (model w2)\<rparr>)
                                         ts of
                                    Inl e \<Rightarrow> Inl e
                                  | Inr (statements, w3) \<Rightarrow>
                                      Inr (w3\<lparr>model := map_option (\<lambda>m. m @ statements)
                                                         (model w3)\<rparr>)))))))"

text \<open>
  \<open>serialize_model\<close> writes the serialiser's text to the handle and returns the tree
  counter. The serialiser \<open>ser\<close> (MIME type, namespaces, model) is Redland's; a handle
  open for writing is the text written so far.
\<close>

definition serialize_model ::
  "rdf_env \<Rightarrow> (string \<Rightarrow> (string \<times> string) list \<Rightarrow> statement list \<Rightarrow> string) \<Rightarrow> 'b writer
     \<Rightarrow> string \<Rightarrow> string \<Rightarrow> error + (nat \<times> string)" where
  "serialize_model env ser w handle mime_type =
     (case import_rdf env of
        Inl e \<Rightarrow> Inl e
      | Inr _ \<Rightarrow>
          (case model w of
             None \<Rightarrow> Inl (RedlandError ''no model to serialize'')
           | Some m \<Rightarrow> Inr (tree_counter w, handle @ ser mime_type RDF_NAMESPACES m)))"

record write_kwargs =
  kw_plain :: "bool option"
  kw_mime_type :: "string option"
  kw_base_uri :: "string option"

text \<open>
  \<open>Writer.write\<close>: the body ends after the call of \<open>serialize_model\<close>, whose value is
  dropped, so the method returns Python's \<open>None\<close>. The result is the returned value
  (\<open>None\<close> for Python's \<open>None\<close>), the writer and the handle afterwards.
\<close>

definition Writer_write ::
  "rdf_env \<Rightarrow> (string \<Rightarrow> (string \<times> string) list \<Rightarrow> statement list \<Rightarrow> string) \<Rightarrow> ('b \<Rightarrow> string)
     \<Rightarrow> 'b writer \<Rightarrow> string \<Rightarrow> write_kwargs \<Rightarrow> error + (nat option \<times> 'b writer \<times> string)" where
  "Writer_write env ser fstr w handle kwargs =
     (case import_rdf env of
        Inl e \<Rightarrow> Inl e
      | Inr _ \<Rightarrow>
          (let mime_type = (case kw_mime_type kwargs of Some m \<Rightarrow> m | None \<Rightarrow> ''text/turtle'');
               base = (case kw_base_uri kwargs of Some b \<Rightarrow> b | None \<Rightarrow> [])
           in case add_trees_to_model env fstr w None False base of
                Inl e \<Rightarrow> Inl e
              | Inr w' \<Rightarrow>
                  (case serialize_model env ser w' handle mime_type of
                     Inl e \<Rightarrow> Inl e
                   | Inr (count, handle') \<Rightarrow> Inr (None, w', handle'))))"

text \<open>The module's \<open>write(trees, handle, plain=False, **kwargs)\<close>, under the name
  \<open>CDAOIO_write\<close>.\<close>

definition CDAOIO_write ::
  "rdf_env \<Rightarrow> (string \<Rightarrow> (string \<times> string) list \<Rightarrow> statement list \<Rightarrow> string) \<Rightarrow> ('b \<Rightarrow> string)
     \<Rightarrow> 'b tree list \<Rightarrow> string \<Rightarrow> bool \<Rightarrow> write_kwargs \<Rightarrow> error + (nat option \<times> 'b writer \<times> string)" where
  "CDAOIO_write env ser fstr ts handle plain kwargs =
     Writer_write env ser fstr (Writer ts) handle (kwargs\<lparr>kw_plain := Some plain\<rparr>)"

section \<open>The parser\<close>

text \<open>
  A handle open for reading: its text and, when it has one, its \<open>name\<close> attribute. A
  \<open>cStringIO\<close> buffer has no such attribute.
\<close>

record handle =
  handle_name :: "string option"
  handle_text :: string

text \<open>One row of the node query (\<open>?node\<close>, \<open>?parent_node\<close>, \<open>?branch_length\<close>, \<open>?label\<close>; an
  unbound variable is \<open>None\<close>) and one row of the root query (\<open>?tree\<close>, \<open>?root_node\<close>).\<close>

record node_row =
  r_node :: rdf_node
  r_parent_node :: "rdf_node option"
  r_branch_length :: "rdf_node option"
  r_label :: "rdf_node option"

type_synonym root_row = "rdf_node \<times> rdf_node"

text \<open>
  What Redland and Python compute for the parser: the rows of the two SPARQL queries over a
  model, \<open>str\<close> of a node, \<open>float\<close> of a string (\<open>None\<close> for a \<open>ValueError\<close>), the
  statements \<open>parse_string_as_stream\<close> reads (MIME type, text, base URI) and
  \<open>os.path.abspath\<close>.
\<close>

record 'b externals =
  node_rows :: "statement list \<Rightarrow> node_row list"
  root_rows :: "statement list \<Rightarrow> root_row list"
  node_str :: "rdf_node \<Rightarrow> string"
  py_float :: "string \<Rightarrow> 'b option"
  parse_string_as_stream :: "string \<Rightarrow> string \<Rightarrow> rdf_node \<Rightarrow> statement list"
  abspath :: "string \<Rightarrow> string"

text \<open>The dictionary \<open>r\<close> kept for a node: its keys \<open>label\<close> and \<open>branch_length\<close>, each
  present or not.\<close>

record 'b node_record =
  label :: "string option"
  rec_branch_length :: "'b option"

text \<open>The parser object; \<open>rooted\<close> is an attribute only once \<open>parse_handle_to_model\<close> has
  set it, and \<open>node_info\<close> is \<open>None\<close> until \<open>get_node_info\<close> runs.\<close>

record 'b parser =
  handle :: handle
  pmodel :: "statement list option"
  node_info :: "(string \<rightharpoonup> 'b node_record) option"
  parents :: "string \<rightharpoonup> string list"
  rooted_attr :: "bool option"

definition Parser :: "handle \<Rightarrow> 'b parser" where
  "Parser h = \<lparr>handle = h, pmodel = None, node_info = None, parents = Map.empty,
               rooted_attr = None\<rparr>"

definition from_string :: "string \<Rightarrow> 'b parser" where
  "from_string treetext = Parser \<lparr>handle_name = None, handle_text = treetext\<rparr>"

record parse_kwargs =
  pk_rooted :: bool
  pk_storage_given :: bool
  pk_mime_type :: string
  pk_base_uri :: "rdf_node option"

text \<open>The keyword arguments at their defaults, \<open>base_uri\<close> not given.\<close>

definition no_kwargs :: parse_kwargs where
  "no_kwargs = \<lparr>pk_rooted = False, pk_storage_given = False, pk_mime_type = ''text/turtle'',
                 pk_base_uri = None\<rparr>"

text \<open>
  \<open>parse_handle_to_model\<close>. A failure is returned with the parser as it is when the
  exception is raised. The generator made by the closing \<open>self.parse_model(model)\<close> is never
  advanced, so that call does nothing.
\<close>

definition parse_handle_to_model ::
  "rdf_env \<Rightarrow> 'b externals \<Rightarrow> 'b parser \<Rightarrow> parse_kwargs \<Rightarrow> (error \<times> 'b parser) + 'b parser" where
  "parse_handle_to_model env ext p kwargs =
     (case import_rdf env of
        Inl e \<Rightarrow> Inl (e, p)
      | Inr _ \<Rightarrow>
          (case (if pk_storage_given kwargs then Inr () else new_storage env) of
             Inl e \<Rightarrow> Inl (e, p)
           | Inr _ \<Rightarrow>
               (case (if pmodel p = None
                      then (if model_created env then Inr (p\<lparr>pmodel := Some []\<rparr>)
                            else Inl (CDAOError ''new RDF.model failed''))
                      else Inr p) of
                  Inl e \<Rightarrow> Inl (e, p)
                | Inr p1 \<Rightarrow>
                    (let p2 = p1\<lparr>rooted_attr := Some (pk_rooted kwargs)\<rparr>
                     in if \<not> parser_created env
                        then Inl (Exception (''Failed to create RDF.Parser for MIME type ''
                                               @ pk_mime_type kwargs), p2)
                        else
                          (case (case pk_base_uri kwargs of
                                   Some b \<Rightarrow> Inr b
                                 | None \<Rightarrow>
                                     (case handle_name (handle p2) of
                                        None \<Rightarrow> Inl (AttributeError ''name'')
                                      | Some nm \<Rightarrow> Inr (Uri (''file://'' @ abspath ext nm)))) of
                             Inl e \<Rightarrow> Inl (e, p2)
                           | Inr base \<Rightarrow>
                               Inr (p2\<lparr>pmodel := map_option
                                      (\<lambda>m. m @ parse_string_as_stream ext (pk_mime_type kwargs)
                                                 (handle_text (handle p2)) base)
                                      (pmodel p2)\<rparr>))))))"

text \<open>\<open>new_clade\<close>: the record of the node must exist; its keys become the keyword
  arguments of \<open>Newick.Clade\<close>.
  Modelled from the spec: the constructor \<open>Newick.Clade\<close> is not among the sources; a
  clade built without a name or a branch length has none, and no children.\<close>

definition new_clade :: "'b parser \<Rightarrow> string \<Rightarrow> error + 'b clade" where
  "new_clade p node =
     (case node_info p of
        None \<Rightarrow> Inl (TypeError ''node_info is None'')
      | Some info \<Rightarrow>
          (case info node of
             None \<Rightarrow> Inl (KeyError node)
           | Some result \<Rightarrow> Inr (Clade (label result) (rec_branch_length result) [])))"

text \<open>The body of the loop of \<open>get_node_info\<close> for one row, on the two dictionaries.\<close>

definition node_info_step ::
  "'b externals \<Rightarrow> (string \<rightharpoonup> 'b node_record) \<times> (string \<rightharpoonup> string list) \<Rightarrow> node_row
     \<Rightarrow> error + (string \<rightharpoonup> 'b node_record) \<times> (string \<rightharpoonup> string list)" where
  "node_info_step ext st result =
     (case st of (info, par) \<Rightarrow>
      (case r_node result of
         Uri node \<Rightarrow>
           (case (case r_label result of
                    None \<Rightarrow> Inr None
                  | Some (Literal s) \<Rightarrow> Inr (Some s)
                  | Some _ \<Rightarrow> Inl (RedlandError ''label is not a literal'')) of
              Inl e \<Rightarrow> Inl e
            | Inr lab \<Rightarrow>
                (case (case r_branch_length result of
                         None \<Rightarrow> Inr None
                       | Some (Literal s) \<Rightarrow>
                           (case py_float ext s of
                              None \<Rightarrow> Inl (ValueError s)
                            | Some x \<Rightarrow> Inr (Some x))
                       | Some _ \<Rightarrow> Inl (RedlandError ''branch_length is not a literal'')) of
                   Inl e \<Rightarrow> Inl e
                 | Inr bl \<Rightarrow>
                     (let info' = info(node \<mapsto> \<lparr>label = lab, rec_branch_length = bl\<rparr>)
                      in case r_parent_node result of
                           None \<Rightarrow> Inr (info', par)
                         | Some pn \<Rightarrow>
                             (let parent = node_str ext pn;
                                  children = (case par parent of None \<Rightarrow> [] | Some cs \<Rightarrow> cs)
                              in Inr (info', par(parent \<mapsto> children @ [node]))))))
       | _ \<Rightarrow> Inl (RedlandError ''node is not a resource'')))"

fun node_info_loop ::
  "'b externals \<Rightarrow> (string \<rightharpoonup> 'b node_record) \<times> (string \<rightharpoonup> string list) \<Rightarrow> node_row list
     \<Rightarrow> error + (string \<rightharpoonup> 'b node_record) \<times> (string \<rightharpoonup> string list)" where
  "node_info_loop ext st [] = Inr st"
| "node_info_loop ext st (result # results) =
     (case node_info_step ext st result of
        Inl e \<Rightarrow> Inl e
      | Inr st' \<Rightarrow> node_info_loop ext st' results)"

definition get_node_info ::
  "rdf_env \<Rightarrow> 'b externals \<Rightarrow> 'b parser \<Rightarrow> statement list option \<Rightarrow> error + 'b parser" where
  "get_node_info env ext p m =
     (case import_rdf env of
        Inl e \<Rightarrow> Inl e
      | Inr _ \<Rightarrow>
          (case m of
             None \<Rightarrow> Inl (RedlandError ''no model to query'')
           | Some sts \<Rightarrow>
               (case node_info_loop ext (Map.empty, Map.empty) (node_rows ext sts) of
                  Inl e \<Rightarrow> Inl e
                | Inr (info, par) \<Rightarrow> Inr (p\<lparr>node_info := Some info, parents := par\<rparr>))))"

text \<open>
  \<open>parse_children\<close> calls itself for every child; on a table of parents with a cycle it
  never returns. The first argument bounds the depth of the calls: \<open>None\<close> says the bound
  was reached.
\<close>

fun parse_children :: "nat \<Rightarrow> 'b parser \<Rightarrow> string \<Rightarrow> (error + 'b clade list) option"
and child_clades :: "nat \<Rightarrow> 'b parser \<Rightarrow> string list \<Rightarrow> (error + 'b clade list) option"
where
  "parse_children 0 p node = None"
| "parse_children (Suc n) p node =
     child_clades n p (case parents p node of Some children \<Rightarrow> children | None \<Rightarrow> [])"
| "child_clades n p [] = Some (Inr [])"
| "child_clades n p (child_node # children) =
     (case new_clade p child_node of
        Inl e \<Rightarrow> Some (Inl e)
      | Inr clade \<Rightarrow>
          (case parse_children n p child_node of
             None \<Rightarrow> None
           | Some (Inl e) \<Rightarrow> Some (Inl e)
           | Some (Inr sub) \<Rightarrow>
               (case child_clades n p children of
                  None \<Rightarrow> None
                | Some (Inl e) \<Rightarrow> Some (Inl e)
                | Some (Inr rest) \<Rightarrow>
                    Some (Inr (Clade (name clade) (branch_length clade) sub # rest)))))"

text \<open>
  The loop of \<open>parse_model\<close> over the rows of the root query. A generator that is consumed
  to its end gives the trees it yields and, when it stops by an exception, that
  exception.
\<close>

fun root_loop ::
  "nat \<Rightarrow> 'b parser \<Rightarrow> root_row list \<Rightarrow> ('b tree list \<times> error option) option" where
  "root_loop n p [] = Some ([], None)"
| "root_loop n p (result # results) =
     (case snd result of
        Uri root_node \<Rightarrow>
          (case new_clade p root_node of
             Inl e \<Rightarrow> Some ([], Some e)
           | Inr clade \<Rightarrow>
               (case parse_children n p root_node of
                  None \<Rightarrow> None
                | Some (Inl e) \<Rightarrow> Some ([], Some e)
                | Some (Inr cs) \<Rightarrow>
                    (case rooted_attr p of
                       None \<Rightarrow> Some ([], Some (AttributeError ''rooted''))
                     | Some r \<Rightarrow>
                         (case root_loop n p results of
                            None \<Rightarrow> None
                          | Some (ts, e) \<Rightarrow>
                              Some (Tree (Clade (name clade) (branch_length clade) cs) r # ts, e)))))
      | _ \<Rightarrow> Some ([], Some (RedlandError ''root_node is not a resource'')))"

definition parse_model ::
  "nat \<Rightarrow> rdf_env \<Rightarrow> 'b externals \<Rightarrow> 'b parser \<Rightarrow> statement list option
     \<Rightarrow> ('b tree list \<times> error option) option" where
  "parse_model n env ext p model_arg =
     (case import_rdf env of
        Inl e \<Rightarrow> Some ([], Some e)
      | Inr _ \<Rightarrow>
          (let m = (case model_arg of None \<Rightarrow> pmodel p | Some sts \<Rightarrow> Some sts)
           in case get_node_info env ext p m of
                Inl e \<Rightarrow> Some ([], Some e)
              | Inr p' \<Rightarrow>
                  (case m of
                     None \<Rightarrow> Some ([], Some (RedlandError ''no model to query''))
                   | Some sts \<Rightarrow> root_loop n p' (root_rows ext sts))))"

text \<open>\<open>Parser.parse\<close> and the module's \<open>parse(handle, **kwargs)\<close>.\<close>

definition Parser_parse ::
  "nat \<Rightarrow> rdf_env \<Rightarrow> 'b externals \<Rightarrow> 'b parser \<Rightarrow> parse_kwargs
     \<Rightarrow> ('b tree list \<times> error option) option" where
  "Parser_parse n env ext p kwargs =
     (case parse_handle_to_model env ext p kwargs of
        Inl (e, p') \<Rightarrow> Some ([], Some e)
      | Inr p' \<Rightarrow> parse_model n env ext p' None)"

definition CDAOIO_parse ::
  "nat \<Rightarrow> rdf_env \<Rightarrow> 'b externals \<Rightarrow> handle \<Rightarrow> parse_kwargs
     \<Rightarrow> ('b tree list \<times> error option) option" where
  "CDAOIO_parse n env ext h kwargs = Parser_parse n env ext (Parser h) kwargs"

section \<open>The decomposition when nothing fails\<close>

text \<open>
  With Redland importable and \<open>base_uri\<close> set to \<open>b\<close> no call of \<open>qUri\<close> or \<open>nUri\<close> fails.
  Then the list \<open>statements\<close> of one call of \<open>process_clade\<close> is \<open>own_statements\<close>, the
  writer afterwards is \<open>advance\<close>, and the whole decomposition is \<open>decompose\<close>.
\<close>

definition own_statements ::
  "string \<Rightarrow> ('b \<Rightarrow> string) \<Rightarrow> 'b writer \<Rightarrow> 'b clade \<Rightarrow> string option \<Rightarrow> bool \<Rightarrow> statement list"
where
  "own_statements b fstr w clade parent is_root =
     (let node = Uri (b @ ''node'' @ str_nat (node_counter w + 1));
          tree = Uri (b @ ''tree'' @ str_nat (tree_counter w + 1));
          tu = Uri (b @ ''tu'' @ str_nat (tu_counter w + 1));
          edge = Uri (b @ ''edge'' @ str_nat (edge_counter w + 1));
          ann = Uri (b @ ''edge_annotation'' @ str_nat (edge_counter w + 1))
      in (if is_root
          then [Statement tree (expand ''rdf:type'') (expand ''cdao:RootedTree''),
                Statement tree (expand ''cdao:has_root'') node]
          else []) @
         (case name clade of
            Some n \<Rightarrow>
              if n \<noteq> []
              then [Statement tu (expand ''rdf:type'') (expand ''cdao:TU''),
                    Statement node (expand ''cdao:represents_TU'') tu,
                    Statement tu (expand ''rdf:label'') (Literal n)]
              else []
          | None \<Rightarrow> []) @
         [Statement node (expand ''rdf:type'')
            (expand (if clades clade = [] then ''cdao:TerminalNode'' else ''cdao:AncestralNode''))] @
         (case parent of
            Some parent_uri \<Rightarrow>
              [Statement edge (expand ''rdf:type'') (expand ''cdao:Directed_Edge''),
               Statement edge (expand ''cdao:has_Parent_Node'') (Uri (b @ parent_uri)),
               Statement edge (expand ''cdao:has_Child_Node'') node,
               Statement node (expand ''cdao:belongs_to_Edge_as_Child'') edge,
               Statement node (expand ''cdao:has_Parent'') (Uri (b @ parent_uri)),
               Statement (Uri (b @ parent_uri)) (expand ''cdao:belongs_to_Edge_as_Parent'') edge,
               Statement ann (expand ''rdf:type'') (expand ''cdao:EdgeLength''),
               Statement edge (expand ''cdao:has_annotation'') ann,
               Statement ann (expand ''cdao:has_value'')
                 (Literal (str_branch_length fstr (branch_length clade)))]
          | None \<Rightarrow> []))"

definition named :: "'b clade \<Rightarrow> bool" where
  "named clade \<longleftrightarrow> name clade \<noteq> None \<and> name clade \<noteq> Some []"

definition advance :: "'b writer \<Rightarrow> 'b clade \<Rightarrow> string option \<Rightarrow> bool \<Rightarrow> 'b writer" where
  "advance w clade parent is_root =
     w\<lparr>node_counter := node_counter w + 1,
       tree_counter := (if is_root then tree_counter w + 1 else tree_counter w),
       tu_counter := (if named clade then tu_counter w + 1 else tu_counter w),
       edge_counter := (if parent \<noteq> None then edge_counter w + 1 else edge_counter w)\<rparr>"

fun decompose ::
  "string \<Rightarrow> ('b \<Rightarrow> string) \<Rightarrow> 'b writer \<Rightarrow> 'b clade \<Rightarrow> string option \<Rightarrow> bool
     \<Rightarrow> statement list \<times> 'b writer"
and decompose_children ::
  "string \<Rightarrow> ('b \<Rightarrow> string) \<Rightarrow> 'b writer \<Rightarrow> 'b clade list \<Rightarrow> string \<Rightarrow> statement list \<times> 'b writer"
where
  "decompose b fstr w (Clade nm bl cs) parent is_root =
     (let rest = decompose_children b fstr (advance w (Clade nm bl cs) parent is_root) cs
                   (''node'' @ str_nat (node_counter w + 1))
      in (own_statements b fstr w (Clade nm bl cs) parent is_root @ fst rest, snd rest))"
| "decompose_children b fstr w [] parent_uri = ([], w)"
| "decompose_children b fstr w (c # cs) parent_uri =
     (let first = decompose b fstr w c (Some parent_uri) False;
          rest = decompose_children b fstr (snd first) cs parent_uri
      in (fst first @ fst rest, snd rest))"

lemma import_rdf_ok: "rdf_importable env \<Longrightarrow> import_rdf env = Inr ()"
  by (simp add: import_rdf_def)

lemma qUri_ok: "rdf_importable env \<Longrightarrow> qUri env s = Inr (expand s)"
  by (simp add: qUri_def import_rdf_ok)

lemma nUri_ok: "rdf_importable env \<Longrightarrow> base_uri w = Some b \<Longrightarrow> nUri env w s = Inr (Uri (b @ s))"
  by (simp add: nUri_def import_rdf_ok)

lemma triple_Inr: "triple (Inr s) (Inr p) (Inr ob) = Inr (Statement s p ob)"
  by (simp add: triple_def)

lemma tree_statements_ok:
  assumes "rdf_importable env" and "base_uri w = Some b"
  shows "tree_statements env w uri is_root =
     Inr (if is_root
          then [Statement (Uri (b @ ''tree'' @ str_nat (tree_counter w + 1))) (expand ''rdf:type'')
                  (expand ''cdao:RootedTree''),
                Statement (Uri (b @ ''tree'' @ str_nat (tree_counter w + 1)))
                  (expand ''cdao:has_root'') (Uri (b @ uri))]
          else [],
          w\<lparr>tree_counter := (if is_root then tree_counter w + 1 else tree_counter w)\<rparr>)"
  using assms by (simp add: tree_statements_def Let_def qUri_ok nUri_ok triple_Inr)

lemma tu_statements_ok:
  assumes "rdf_importable env" and "base_uri w = Some b"
  shows "tu_statements env w uri clade =
     Inr (case name clade of
            Some n \<Rightarrow>
              if n \<noteq> []
              then [Statement (Uri (b @ ''tu'' @ str_nat (tu_counter w + 1))) (expand ''rdf:type'')
                      (expand ''cdao:TU''),
                    Statement (Uri (b @ uri)) (expand ''cdao:represents_TU'')
                      (Uri (b @ ''tu'' @ str_nat (tu_counter w + 1))),
                    Statement (Uri (b @ ''tu'' @ str_nat (tu_counter w + 1))) (expand ''rdf:label'')
                      (Literal n)]
              else []
          | None \<Rightarrow> [],
          w\<lparr>tu_counter := (if named clade then tu_counter w + 1 else tu_counter w)\<rparr>)"
  using assms
  by (simp add: tu_statements_def Let_def qUri_ok nUri_ok triple_Inr named_def
      split: option.split)

lemma node_statements_ok:
  assumes "rdf_importable env" and "base_uri w = Some b"
  shows "node_statements env w uri clade =
     Inr [Statement (Uri (b @ uri)) (expand ''rdf:type'')
            (expand (if clades clade = [] then ''cdao:TerminalNode'' else ''cdao:AncestralNode''))]"
  using assms
  by (simp add: node_statements_def Let_def qUri_ok nUri_ok triple_Inr is_terminal_def)

lemma edge_statements_ok:
  assumes "rdf_importable env" and "base_uri w = Some b"
  shows "edge_statements env fstr w uri clade parent =
     Inr (case parent of
            Some parent_uri \<Rightarrow>
              [Statement (Uri (b @ ''edge'' @ str_nat (edge_counter w + 1))) (expand ''rdf:type'')
                 (expand ''cdao:Directed_Edge''),
               Statement (Uri (b @ ''edge'' @ str_nat (edge_counter w + 1)))
                 (expand ''cdao:has_Parent_Node'') (Uri (b @ parent_uri)),
               Statement (Uri (b @ ''edge'' @ str_nat (edge_counter w + 1)))
                 (expand ''cdao:has_Child_Node'') (Uri (b @ uri)),
               Statement (Uri (b @ uri)) (expand ''cdao:belongs_to_Edge_as_Child'')
                 (Uri (b @ ''edge'' @ str_nat (edge_counter w + 1))),
               Statement (Uri (b @ uri)) (expand ''cdao:has_Parent'') (Uri (b @ parent_uri)),
               Statement (Uri (b @ parent_uri)) (expand ''cdao:belongs_to_Edge_as_Parent'')
                 (Uri (b @ ''edge'' @ str_nat (edge_counter w + 1))),
               Statement (Uri (b @ ''edge_annotation'' @ str_nat (edge_counter w + 1)))
                 (expand ''rdf:type'') (expand ''cdao:EdgeLength''),
               Statement (Uri (b @ ''edge'' @ str_nat (edge_counter w + 1)))
                 (expand ''cdao:has_annotation'')
                 (Uri (b @ ''edge_annotation'' @ str_nat (edge_counter w + 1))),
               Statement (Uri (b @ ''edge_annotation'' @ str_nat (edge_counter w + 1)))
                 (expand ''cdao:has_value'')
                 (Literal (str_branch_length fstr (branch_length clade)))]
          | None \<Rightarrow> [],
          w\<lparr>edge_counter := (if parent \<noteq> None then edge_counter w + 1 else edge_counter w)\<rparr>)"
  using assms
  by (simp add: edge_statements_def Let_def qUri_ok nUri_ok triple_Inr split: option.split)

lemma clade_statements_ok:
  assumes "rdf_importable env" and "base_uri w = Some b"
  shows "clade_statements env fstr w clade parent is_root =
     Inr (''node'' @ str_nat (node_counter w + 1),
          own_statements b fstr w clade parent is_root,
          advance w clade parent is_root)"
  unfolding clade_statements_def import_rdf_ok [OF assms(1)] Let_def
  using assms(2)
  by (simp add: tree_statements_ok [OF assms(1), where b = b]
      tu_statements_ok [OF assms(1), where b = b]
      node_statements_ok [OF assms(1), where b = b]
      edge_statements_ok [OF assms(1), where b = b]
      own_statements_def advance_def Let_def split: option.split)

lemma advance_base_uri: "base_uri (advance w clade parent is_root) = base_uri w"
  by (simp add: advance_def)

lemma decompose_base_uri:
  "base_uri (snd (decompose b fstr w c parent is_root)) = base_uri w"
  "base_uri (snd (decompose_children b fstr w cs parent_uri)) = base_uri w"
  by (induction b fstr w c parent is_root and b fstr w cs parent_uri
      rule: decompose_decompose_children.induct)
    (simp_all add: Let_def advance_base_uri)

lemma process_clade_ok:
  "rdf_importable env \<Longrightarrow> base_uri w = Some b \<Longrightarrow>
     process_clade env fstr w c parent is_root = Inr (decompose b fstr w c parent is_root)"
  "rdf_importable env \<Longrightarrow> base_uri w = Some b \<Longrightarrow>
     process_clades env fstr w cs parent_uri = Inr (decompose_children b fstr w cs parent_uri)"
proof (induction env fstr w c parent is_root and env fstr w cs parent_uri
       rule: process_clade_process_clades.induct)
  case (1 env fstr w nm bl cs parent is_root)
  let ?c = "Clade nm bl cs"
  note cs = clade_statements_ok [OF "1.prems", of fstr ?c parent is_root]
  show ?case
  proof (cases "cs = []")
    case True
    from cs show ?thesis unfolding True by (simp add: is_terminal_def Let_def)
  next
    case False
    then have nt: "\<not> is_terminal ?c" by (simp add: is_terminal_def)
    have "base_uri (advance w ?c parent is_root) = Some b"
      using "1.prems" by (simp add: advance_base_uri)
    from "1.IH" [OF cs refl refl nt "1.prems"(1) this] nt show ?thesis
      by (simp add: cs Let_def split_beta)
  qed
next
  case (2 env fstr w parent_uri)
  show ?case by simp
next
  case (3 env fstr w new_clade cs parent_uri)
  let ?f = "decompose b fstr w new_clade (Some parent_uri) False"
  have f: "process_clade env fstr w new_clade (Some parent_uri) False = Inr ?f"
    using "3.IH"(1) "3.prems" by simp
  have "base_uri (snd ?f) = Some b" using "3.prems" by (simp add: decompose_base_uri)
  from "3.IH"(2) [OF f prod.collapse "3.prems"(1) this]
  show ?case by (simp add: f Let_def split_beta)
qed

fun preorder :: "'b clade \<Rightarrow> 'b clade list" where
  "preorder (Clade nm bl cs) = Clade nm bl cs # concat (map preorder cs)"

definition parented :: "'b clade \<Rightarrow> string option \<Rightarrow> 'b clade list" where
  "parented c parent = (case parent of None \<Rightarrow> tl (preorder c) | Some _ \<Rightarrow> preorder c)"

definition is_node_kind :: "statement \<Rightarrow> bool" where
  "is_node_kind st \<longleftrightarrow> predicate st = expand ''rdf:type'' \<and>
     (object st = expand ''cdao:TerminalNode'' \<or> object st = expand ''cdao:AncestralNode'')"

definition is_tu_statement :: "statement \<Rightarrow> bool" where
  "is_tu_statement st \<longleftrightarrow>
     (predicate st = expand ''rdf:type'' \<and> object st = expand ''cdao:TU'') \<or>
     predicate st = expand ''cdao:represents_TU'' \<or> predicate st = expand ''rdf:label''"

definition is_edge_length_statement :: "statement \<Rightarrow> bool" where
  "is_edge_length_statement st \<longleftrightarrow>
     (predicate st = expand ''rdf:type'' \<and> object st = expand ''cdao:EdgeLength'') \<or>
     predicate st = expand ''cdao:has_annotation'' \<or> predicate st = expand ''cdao:has_value''"

definition node_kind_statement :: "string \<Rightarrow> nat \<times> 'b clade \<Rightarrow> statement" where
  "node_kind_statement b p =
     Statement (Uri (b @ ''node'' @ str_nat (fst p))) (expand ''rdf:type'')
       (expand (if clades (snd p) = [] then ''cdao:TerminalNode'' else ''cdao:AncestralNode''))"

definition tu_entity :: "string \<Rightarrow> nat \<times> nat \<times> 'b clade \<Rightarrow> statement list" where
  "tu_entity b p =
     (case name (snd (snd p)) of
        Some n \<Rightarrow>
          [Statement (Uri (b @ ''tu'' @ str_nat (fst p))) (expand ''rdf:type'') (expand ''cdao:TU''),
           Statement (Uri (b @ ''node'' @ str_nat (fst (snd p)))) (expand ''cdao:represents_TU'')
             (Uri (b @ ''tu'' @ str_nat (fst p))),
           Statement (Uri (b @ ''tu'' @ str_nat (fst p))) (expand ''rdf:label'') (Literal n)]
      | None \<Rightarrow> [])"

definition edge_length_entity :: "string \<Rightarrow> ('b \<Rightarrow> string) \<Rightarrow> nat \<times> 'b clade \<Rightarrow> statement list" where
  "edge_length_entity b fstr p =
     [Statement (Uri (b @ ''edge_annotation'' @ str_nat (fst p))) (expand ''rdf:type'')
        (expand ''cdao:EdgeLength''),
      Statement (Uri (b @ ''edge'' @ str_nat (fst p))) (expand ''cdao:has_annotation'')
        (Uri (b @ ''edge_annotation'' @ str_nat (fst p))),
      Statement (Uri (b @ ''edge_annotation'' @ str_nat (fst p))) (expand ''cdao:has_value'')
        (Literal (str_branch_length fstr (branch_length (snd p))))]"

lemma expand_consts:
  "expand ''rdf:type'' = Uri ''http://www.w3.org/1999/02/22-rdf-syntax-ns#type''"
  "expand ''rdf:label'' = Uri ''http://www.w3.org/1999/02/22-rdf-syntax-ns#label''"
  "expand ''owl:Ontology'' = Uri ''http://www.w3.org/2002/07/owl#Ontology''"
  "expand ''cdao:RootedTree'' = Uri ''http://purl.obolibrary.org/obo/cdao.owl#RootedTree''"
  "expand ''cdao:has_root'' = Uri ''http://purl.obolibrary.org/obo/cdao.owl#has_root''"
  "expand ''cdao:TU'' = Uri ''http://purl.obolibrary.org/obo/cdao.owl#TU''"
  "expand ''cdao:represents_TU'' = Uri ''http://purl.obolibrary.org/obo/cdao.owl#represents_TU''"
  "expand ''cdao:TerminalNode'' = Uri ''http://purl.obolibrary.org/obo/cdao.owl#TerminalNode''"
  "expand ''cdao:AncestralNode'' = Uri ''http://purl.obolibrary.org/obo/cdao.owl#AncestralNode''"
  "expand ''cdao:Directed_Edge'' = Uri ''http://purl.obolibrary.org/obo/cdao.owl#Directed_Edge''"
  "expand ''cdao:has_Parent_Node'' = Uri ''http://purl.obolibrary.org/obo/cdao.owl#has_Parent_Node''"
  "expand ''cdao:has_Child_Node'' = Uri ''http://purl.obolibrary.org/obo/cdao.owl#has_Child_Node''"
  "expand ''cdao:belongs_to_Edge_as_Child'' =
     Uri ''http://purl.obolibrary.org/obo/cdao.owl#belongs_to_Edge_as_Child''"
  "expand ''cdao:has_Parent'' = Uri ''http://purl.obolibrary.org/obo/cdao.owl#has_Parent''"
  "expand ''cdao:belongs_to_Edge_as_Parent'' =
     Uri ''http://purl.obolibrary.org/obo/cdao.owl#belongs_to_Edge_as_Parent''"
  "expand ''cdao:EdgeLength'' = Uri ''http://purl.obolibrary.org/obo/cdao.owl#EdgeLength''"
  "expand ''cdao:has_annotation'' = Uri ''http://purl.obolibrary.org/obo/cdao.owl#has_annotation''"
  "expand ''cdao:has_value'' = Uri ''http://purl.obolibrary.org/obo/cdao.owl#has_value''"
  by (simp_all add: expand_def qUri_items_def RDF_NAMESPACES_def)

lemma filter_node_kind_own:
  "filter is_node_kind (own_statements b fstr w c parent is_root) =
     [node_kind_statement b (node_counter w + 1, c)]"
  by (simp add: own_statements_def Let_def is_node_kind_def node_kind_statement_def expand_consts
      split: option.split)

lemma filter_tu_own:
  "filter is_tu_statement (own_statements b fstr w c parent is_root) =
     (if named c then tu_entity b (tu_counter w + 1, node_counter w + 1, c) else [])"
  by (simp add: own_statements_def Let_def is_tu_statement_def tu_entity_def named_def
      expand_consts split: option.split)

lemma filter_edge_length_own:
  "filter is_edge_length_statement (own_statements b fstr w c parent is_root) =
     (if parent \<noteq> None then edge_length_entity b fstr (edge_counter w + 1, c) else [])"
  by (simp add: own_statements_def Let_def is_edge_length_statement_def edge_length_entity_def
      expand_consts split: option.split)

lemma preorder_nonempty: "preorder c \<noteq> []"
  by (cases c) simp

lemma parented_Clade:
  "parented (Clade nm bl cs) parent =
     (if parent \<noteq> None then [Clade nm bl cs] else []) @ concat (map preorder cs)"
  by (simp add: parented_def split: option.split)

lemma counters_decompose:
  "node_counter (snd (decompose b fstr w c parent is_root)) = node_counter w + length (preorder c) \<and>
   tu_counter (snd (decompose b fstr w c parent is_root)) =
     tu_counter w + length (filter named (preorder c)) \<and>
   edge_counter (snd (decompose b fstr w c parent is_root)) =
     edge_counter w + length (parented c parent) \<and>
   tree_counter (snd (decompose b fstr w c parent is_root)) =
     (if is_root then tree_counter w + 1 else tree_counter w)"
  "node_counter (snd (decompose_children b fstr w cs parent_uri)) =
     node_counter w + length (concat (map preorder cs)) \<and>
   tu_counter (snd (decompose_children b fstr w cs parent_uri)) =
     tu_counter w + length (filter named (concat (map preorder cs))) \<and>
   edge_counter (snd (decompose_children b fstr w cs parent_uri)) =
     edge_counter w + length (concat (map preorder cs)) \<and>
   tree_counter (snd (decompose_children b fstr w cs parent_uri)) = tree_counter w"
proof (induction b fstr w c parent is_root and b fstr w cs parent_uri
       rule: decompose_decompose_children.induct)
  case (1 b fstr w nm bl cs parent is_root)
  then show ?case
    by (simp add: Let_def advance_def parented_Clade)
next
  case (2 b fstr w parent_uri)
  show ?case by simp
next
  case (3 b fstr w c cs parent_uri)
  then show ?case
    by (simp add: Let_def parented_def)
qed

lemma node_kind_decompose:
  "filter is_node_kind (fst (decompose b fstr w c parent is_root)) =
     map (node_kind_statement b) (enumerate (node_counter w + 1) (preorder c))"
  "filter is_node_kind (fst (decompose_children b fstr w cs parent_uri)) =
     map (node_kind_statement b) (enumerate (node_counter w + 1) (concat (map preorder cs)))"
proof (induction b fstr w c parent is_root and b fstr w cs parent_uri
       rule: decompose_decompose_children.induct)
  case (1 b fstr w nm bl cs parent is_root)
  then show ?case
    by (simp add: Let_def filter_node_kind_own advance_def)
next
  case (2 b fstr w parent_uri)
  show ?case by simp
next
  case (3 b fstr w c cs parent_uri)
  then show ?case
    by (simp add: Let_def enumerate_append_eq counters_decompose add.assoc)
qed

lemma filter_enumerate_named:
  "length (filter (\<lambda>p. named (snd p)) (enumerate n xs)) = length (filter named xs)"
  by (induction xs arbitrary: n) simp_all

lemma tu_decompose:
  "filter is_tu_statement (fst (decompose b fstr w c parent is_root)) =
     concat (map (tu_entity b)
       (enumerate (tu_counter w + 1)
          (filter (\<lambda>p. named (snd p)) (enumerate (node_counter w + 1) (preorder c)))))"
  "filter is_tu_statement (fst (decompose_children b fstr w cs parent_uri)) =
     concat (map (tu_entity b)
       (enumerate (tu_counter w + 1)
          (filter (\<lambda>p. named (snd p))
             (enumerate (node_counter w + 1) (concat (map preorder cs))))))"
proof (induction b fstr w c parent is_root and b fstr w cs parent_uri
       rule: decompose_decompose_children.induct)
  case (1 b fstr w nm bl cs parent is_root)
  then show ?case
    by (simp add: Let_def filter_tu_own advance_def)
next
  case (2 b fstr w parent_uri)
  show ?case by simp
next
  case (3 b fstr w c cs parent_uri)
  then show ?case
    by (simp add: Let_def enumerate_append_eq counters_decompose filter_enumerate_named add.assoc)
qed

lemma edge_length_decompose:
  "filter is_edge_length_statement (fst (decompose b fstr w c parent is_root)) =
     concat (map (edge_length_entity b fstr) (enumerate (edge_counter w + 1) (parented c parent)))"
  "filter is_edge_length_statement (fst (decompose_children b fstr w cs parent_uri)) =
     concat (map (edge_length_entity b fstr)
       (enumerate (edge_counter w + 1) (concat (map preorder cs))))"
proof (induction b fstr w c parent is_root and b fstr w cs parent_uri
       rule: decompose_decompose_children.induct)
  case (1 b fstr w nm bl cs parent is_root)
  then show ?case
    by (simp add: Let_def filter_edge_length_own advance_def parented_Clade)
next
  case (2 b fstr w parent_uri)
  show ?case by simp
next
  case (3 b fstr w c cs parent_uri)
  then show ?case
    by (simp add: Let_def enumerate_append_eq counters_decompose add.assoc parented_def)
qed

lemma str_nat_small: "n < 10 \<Longrightarrow> str_nat n = [digit_char n]"
  by (simp add: str_nat.simps)

lemmas eval_simps =
  redland_ok_def Writer_def str_nat_small digit_char_def enumerate_simps named_def

text \<open>
  C5. With Redland importable and \<open>base_uri\<close> set, \<open>process_clade\<close> returns, and the
  statements it yields that give a node its kind are, in order, one for every clade of the
  tree in depth-first order: the statement is about that clade's own node (the nodes are
  numbered from the node counter on), and its kind is \<open>TerminalNode\<close> when the clade has
  no children and \<open>AncestralNode\<close> otherwise.
\<close>

theorem node_kind_exactly_one:
  assumes "rdf_importable env" and "base_uri w = Some b"
  shows "\<exists>sts w'. process_clade env fstr w c parent is_root = Inr (sts, w') \<and>
           filter is_node_kind sts =
             map (node_kind_statement b) (enumerate (node_counter w + 1) (preorder c))"
proof -
  have "process_clade env fstr w c parent is_root =
          Inr (fst (decompose b fstr w c parent is_root), snd (decompose b fstr w c parent is_root))"
    by (simp only: process_clade_ok(1) [OF assms] prod.collapse)
  then show ?thesis using node_kind_decompose(1) by blast
qed

theorem node_kind_exactly_one_witness:
  "rdf_importable redland_ok \<and>
   base_uri ((Writer [])\<lparr>base_uri := Some []\<rparr> :: nat writer) = Some [] \<and>
   (\<exists>sts w'.
      process_clade redland_ok str_nat ((Writer [])\<lparr>base_uri := Some []\<rparr>)
        (Clade None None [Clade (Some ''A'') (Some 1) [], Clade (Some ''B'') (Some 2) []])
        None True = Inr (sts, w') \<and>
      filter is_node_kind sts =
        [Statement (Uri ''node1'') (expand ''rdf:type'') (expand ''cdao:AncestralNode''),
         Statement (Uri ''node2'') (expand ''rdf:type'') (expand ''cdao:TerminalNode''),
         Statement (Uri ''node3'') (expand ''rdf:type'') (expand ''cdao:TerminalNode'')])"
  using node_kind_exactly_one [of redland_ok "(Writer [])\<lparr>base_uri := Some []\<rparr>" "[]" str_nat
      "Clade None None [Clade (Some ''A'') (Some 1) [], Clade (Some ''B'') (Some 2) []]" None True]
  by (simp add: eval_simps node_kind_statement_def)

text \<open>
  C6. With Redland importable and \<open>base_uri\<close> set, the statements of TU entities that
  \<open>process_clade\<close> yields are, in order, those of the clades of the tree whose name is a
  non-empty string, three for each: the type of its new TU, the \<open>represents_TU\<close> relation
  from its node and the label carrying its name. A clade whose name is missing or empty
  contributes none.
\<close>

theorem tu_iff_name_nonempty:
  assumes "rdf_importable env" and "base_uri w = Some b"
  shows "\<exists>sts w'. process_clade env fstr w c parent is_root = Inr (sts, w') \<and>
           filter is_tu_statement sts =
             concat (map (tu_entity b)
               (enumerate (tu_counter w + 1)
                  (filter (\<lambda>p. named (snd p)) (enumerate (node_counter w + 1) (preorder c)))))"
proof -
  have "process_clade env fstr w c parent is_root =
          Inr (fst (decompose b fstr w c parent is_root), snd (decompose b fstr w c parent is_root))"
    by (simp only: process_clade_ok(1) [OF assms] prod.collapse)
  then show ?thesis using tu_decompose(1) by blast
qed

theorem tu_iff_name_nonempty_witness:
  "rdf_importable redland_ok \<and>
   base_uri ((Writer [])\<lparr>base_uri := Some []\<rparr> :: nat writer) = Some [] \<and>
   (\<exists>sts w'.
      process_clade redland_ok str_nat ((Writer [])\<lparr>base_uri := Some []\<rparr>)
        (Clade None None [Clade (Some '''') (Some 1) [], Clade (Some ''B'') (Some 2) []])
        None True = Inr (sts, w') \<and>
      filter is_tu_statement sts =
        [Statement (Uri ''tu1'') (expand ''rdf:type'') (expand ''cdao:TU''),
         Statement (Uri ''node3'') (expand ''cdao:represents_TU'') (Uri ''tu1''),
         Statement (Uri ''tu1'') (expand ''rdf:label'') (Literal ''B'')])"
  using tu_iff_name_nonempty [of redland_ok "(Writer [])\<lparr>base_uri := Some []\<rparr>" "[]" str_nat
      "Clade None None [Clade (Some '''') (Some 1) [], Clade (Some ''B'') (Some 2) []]" None True]
  by (simp add: eval_simps tu_entity_def)

text \<open>
  C2, as the code has it. With Redland importable and \<open>base_uri\<close> set, the EdgeLength
  statements that \<open>process_clade\<close> yields are, in order, three for every clade that is
  processed with a parent: all clades of the tree but the one the call starts with when
  that one has no parent (a root), whatever its branch length. The three are the type of
  the annotation, its attachment to the clade's edge and its value,
  \<open>str(clade.branch_length)\<close>: the text of \<open>x\<close> when the branch length is \<open>x\<close>.
\<close>

theorem edge_length_of_non_root:
  assumes "rdf_importable env" and "base_uri w = Some b"
  shows "(\<exists>sts w'. process_clade env fstr w c parent is_root = Inr (sts, w') \<and>
            filter is_edge_length_statement sts =
              concat (map (edge_length_entity b fstr)
                (enumerate (edge_counter w + 1) (parented c parent)))) \<and>
         (branch_length d = Some x \<longrightarrow>
            edge_length_entity b fstr (e, d) =
              [Statement (Uri (b @ ''edge_annotation'' @ str_nat e)) (expand ''rdf:type'')
                 (expand ''cdao:EdgeLength''),
               Statement (Uri (b @ ''edge'' @ str_nat e)) (expand ''cdao:has_annotation'')
                 (Uri (b @ ''edge_annotation'' @ str_nat e)),
               Statement (Uri (b @ ''edge_annotation'' @ str_nat e)) (expand ''cdao:has_value'')
                 (Literal (fstr x))])"
proof -
  have "process_clade env fstr w c parent is_root =
          Inr (fst (decompose b fstr w c parent is_root), snd (decompose b fstr w c parent is_root))"
    by (simp only: process_clade_ok(1) [OF assms] prod.collapse)
  then have "\<exists>sts w'. process_clade env fstr w c parent is_root = Inr (sts, w') \<and>
            filter is_edge_length_statement sts =
              concat (map (edge_length_entity b fstr)
                (enumerate (edge_counter w + 1) (parented c parent)))"
    using edge_length_decompose(1) by blast
  then show ?thesis by (simp add: edge_length_entity_def str_branch_length_def)
qed

theorem edge_length_of_non_root_witness:
  "rdf_importable redland_ok \<and>
   base_uri ((Writer [])\<lparr>base_uri := Some []\<rparr> :: nat writer) = Some [] \<and>
   (\<exists>sts w'.
      process_clade redland_ok str_nat ((Writer [])\<lparr>base_uri := Some []\<rparr>)
        (Clade None None [Clade (Some ''A'') (Some 1) [], Clade (Some ''B'') (Some 2) []])
        None True = Inr (sts, w') \<and>
      filter is_edge_length_statement sts =
        [Statement (Uri ''edge_annotation1'') (expand ''rdf:type'') (expand ''cdao:EdgeLength''),
         Statement (Uri ''edge1'') (expand ''cdao:has_annotation'') (Uri ''edge_annotation1''),
         Statement (Uri ''edge_annotation1'') (expand ''cdao:has_value'') (Literal ''1''),
         Statement (Uri ''edge_annotation2'') (expand ''rdf:type'') (expand ''cdao:EdgeLength''),
         Statement (Uri ''edge2'') (expand ''cdao:has_annotation'') (Uri ''edge_annotation2''),
         Statement (Uri ''edge_annotation2'') (expand ''cdao:has_value'') (Literal ''2'')]) \<and>
   branch_length (Clade (Some ''B'') (Some (2::nat)) []) = Some 2 \<and>
   edge_length_entity [] str_nat (2, Clade (Some ''B'') (Some (2::nat)) []) =
     [Statement (Uri ''edge_annotation2'') (expand ''rdf:type'') (expand ''cdao:EdgeLength''),
      Statement (Uri ''edge2'') (expand ''cdao:has_annotation'') (Uri ''edge_annotation2''),
      Statement (Uri ''edge_annotation2'') (expand ''cdao:has_value'') (Literal ''2'')]"
  using edge_length_of_non_root [of redland_ok "(Writer [])\<lparr>base_uri := Some []\<rparr>" "[]" str_nat
      "Clade None None [Clade (Some ''A'') (Some 1) [], Clade (Some ''B'') (Some 2) []]" None True
      "Clade (Some ''B'') (Some (2::nat)) []" 2 2]
  by (simp add: eval_simps edge_length_entity_def parented_def str_branch_length_def)

text \<open>
  C2 as stated fails in both directions on the tree whose root has branch length 1 and
  whose one child, named A, has none, decomposed by a writer whose \<open>base_uri\<close> is the empty
  string (what \<open>write\<close> sets by default): the only EdgeLength entity is the child's, with
  the value \<open>None\<close> as text, and the root has none.
\<close>

theorem edge_length_iff_counterexample:
  "branch_length (Clade None (Some (1::nat)) [Clade (Some ''A'') None []]) = Some 1 \<and>
   branch_length (Clade (Some ''A'') (None :: nat option) []) = None \<and>
   (\<exists>sts w'.
      process_clade redland_ok str_nat ((Writer [])\<lparr>base_uri := Some []\<rparr>)
        (Clade None (Some (1::nat)) [Clade (Some ''A'') None []]) None True = Inr (sts, w') \<and>
      filter is_edge_length_statement sts =
        [Statement (Uri ''edge_annotation1'') (expand ''rdf:type'') (expand ''cdao:EdgeLength''),
         Statement (Uri ''edge1'') (expand ''cdao:has_annotation'') (Uri ''edge_annotation1''),
         Statement (Uri ''edge_annotation1'') (expand ''cdao:has_value'') (Literal ''None'')])"
proof -
  let ?w = "(Writer [])\<lparr>base_uri := Some []\<rparr> :: nat writer"
  let ?c = "Clade None (Some (1::nat)) [Clade (Some ''A'') None []]"
  have ok: "rdf_importable redland_ok" "base_uri ?w = Some []"
    by (simp_all add: redland_ok_def)
  have "process_clade redland_ok str_nat ?w ?c None True =
          Inr (fst (decompose [] str_nat ?w ?c None True), snd (decompose [] str_nat ?w ?c None True))"
    by (simp only: process_clade_ok(1) [OF ok] prod.collapse)
  moreover have "filter is_edge_length_statement (fst (decompose [] str_nat ?w ?c None True)) =
        [Statement (Uri ''edge_annotation1'') (expand ''rdf:type'') (expand ''cdao:EdgeLength''),
         Statement (Uri ''edge1'') (expand ''cdao:has_annotation'') (Uri ''edge_annotation1''),
         Statement (Uri ''edge_annotation1'') (expand ''cdao:has_value'') (Literal ''None'')]"
    unfolding edge_length_decompose(1)
    by (simp add: eval_simps edge_length_entity_def parented_def str_branch_length_def)
  ultimately show ?thesis by simp
qed

end
